theory Spec2Isabelle
  imports Main "HOL-Library.Sublist"
begin

section \<open>Holder admin protocol (acapy\_plugin\_toolbox/holder/v0\_1.py)\<close>

text \<open>
  A shallow embedding of the holder admin message handlers. A handler is a function from
  the request and the agent's record stores to an outcome: the exception that escapes the
  handler (if any), the messages handed to the responder in the order of the calls, and
  the record stores afterwards. The decorators \<open>log_handling\<close> and \<open>admin_only\<close>
  wrap every \<open>handle\<close> method from outside this module; the functions below are the
  method bodies, that is, what runs for a request that was let through.
\<close>

subsection \<open>Exceptions\<close>

datatype exn_class =
    StorageError
  | StorageNotFoundError
  | InvalidPresentationExchange
  | InvalidConnection
  | InvalidArgument
  | CredentialManagerError
  | BaseModelError
  | IndyHolderError
  | LedgerError
  | WalletNotFoundError
  | UnboundLocalError
  | AttributeError

datatype exn = Exn (exn_class: exn_class) (exn_text: string)

text \<open>
  Python's \<open>isinstance(err, cls)\<close>: of the classes above only
  \<open>StorageNotFoundError\<close> has another of them, \<open>StorageError\<close>, as a base class.
\<close>

fun isinstance :: "exn \<Rightarrow> exn_class \<Rightarrow> bool" where
  "isinstance (Exn c _) k = (c = k \<or> (c = StorageNotFoundError \<and> k = StorageError))"

subsection \<open>Records of the agent\<close>

type_synonym ident = string

record CredExRecord =
  credential_exchange_id :: ident
  cred_connection_id :: ident
  cred_state :: string

record PresExRecord =
  presentation_exchange_id :: ident
  pres_connection_id :: ident
  pres_state :: string
  pres_role :: string
  pres_verified :: "string option"
  presentation_request :: string

record ConnRecord =
  conn_connection_id :: ident
  my_did :: string
  is_ready :: bool

text \<open>State and role names of the agent's exchange records.\<close>

definition STATE_OFFER_RECEIVED :: string where
  "STATE_OFFER_RECEIVED = ''offer_received''"

definition STATE_CREDENTIAL_RECEIVED :: string where
  "STATE_CREDENTIAL_RECEIVED = ''credential_received''"

definition STATE_REQUEST_RECEIVED :: string where
  "STATE_REQUEST_RECEIVED = ''request_received''"

definition ROLE_PROVER :: string where
  "ROLE_PROVER = ''prover''"

text \<open>
  The record stores: each collection in the order in which a query returns it.
\<close>

record world =
  cred_ex_records :: "CredExRecord list"
  pres_ex_records :: "PresExRecord list"
  conn_records :: "ConnRecord list"

definition CredExRecord_query :: "world \<Rightarrow> CredExRecord list" where
  "CredExRecord_query w = cred_ex_records w"

definition CredExRecord_retrieve_by_id :: "world \<Rightarrow> ident \<Rightarrow> exn + CredExRecord" where
  "CredExRecord_retrieve_by_id w i =
     (case find (\<lambda>r. credential_exchange_id r = i) (cred_ex_records w) of
        None \<Rightarrow> Inl (Exn StorageNotFoundError [])
      | Some r \<Rightarrow> Inr r)"

definition PresExRecord_retrieve_by_id :: "world \<Rightarrow> ident \<Rightarrow> exn + PresExRecord" where
  "PresExRecord_retrieve_by_id w i =
     (case find (\<lambda>r. presentation_exchange_id r = i) (pres_ex_records w) of
        None \<Rightarrow> Inl (Exn StorageNotFoundError [])
      | Some r \<Rightarrow> Inr r)"

definition ConnRecord_retrieve_by_id :: "world \<Rightarrow> ident \<Rightarrow> exn + ConnRecord" where
  "ConnRecord_retrieve_by_id w i =
     (case find (\<lambda>r. conn_connection_id r = i) (conn_records w) of
        None \<Rightarrow> Inl (Exn StorageNotFoundError [])
      | Some r \<Rightarrow> Inr r)"

text \<open>
  \<open>PresExRecord.query(session, {}, post_filter_positive=...)\<close>: the records whose
  attributes equal every entry of the post-filter.
\<close>

definition PresExRecord_query ::
  "world \<Rightarrow> (PresExRecord \<Rightarrow> bool) list \<Rightarrow> PresExRecord list" where
  "PresExRecord_query w post_filter_positive =
     filter (\<lambda>r. \<forall>p \<in> set post_filter_positive. p r) (pres_ex_records w)"

subsection \<open>Pagination\<close>

datatype Paginate = Paginate (limit: int) (offset: int)

datatype Page = Page (page_count: int) (page_offset: int)

text \<open>
  Modelled from the spec: \<open>Paginate.apply\<close> of \<open>decorators/pagination.py\<close>, which
  is not part of the sources at hand. The spec's contract: a limit of zero or less is
  rejected with \<open>InvalidArgument\<close>; otherwise the slice is the window of at most
  \<open>limit\<close> records that starts at \<open>offset\<close>, an offset past the end gives the empty
  slice, and the page carries the requested offset (\<open>page.offset == O\<close>). The spec
  describes a page as a count and an offset returned with the slice; the count is taken to
  be the size of the slice.
\<close>

definition Paginate_apply :: "Paginate \<Rightarrow> 'a list \<Rightarrow> exn + ('a list \<times> Page)" where
  "Paginate_apply p records =
     (if limit p \<le> 0 then Inl (Exn InvalidArgument [])
      else
        let result = take (nat (limit p)) (drop (nat (offset p)) records)
        in Inr (result, Page (int (length result)) (offset p)))"

subsection \<open>Messages\<close>

text \<open>The fifteen message classes of the module, each with its \<open>message_type\<close>.\<close>

datatype msg_class =
    CredGetList
  | CredList
  | SendCredProposal
  | CredExchange
  | CredOfferRecv
  | CredOfferAccept
  | CredRequestSent
  | CredReceived
  | PresGetList
  | PresList
  | SendPresProposal
  | PresExchange
  | PresRequestReceived
  | PresRequestApprove
  | PresSent

fun message_type :: "msg_class \<Rightarrow> string" where
  "message_type CredGetList = ''credentials-get-list''"
| "message_type CredList = ''credentials-list''"
| "message_type SendCredProposal = ''send-credential-proposal''"
| "message_type CredExchange = ''credential-exchange''"
| "message_type CredOfferRecv = ''credential-offer-received''"
| "message_type CredOfferAccept = ''credential-offer-accept''"
| "message_type CredRequestSent = ''credential-request-sent''"
| "message_type CredReceived = ''credential-received''"
| "message_type PresGetList = ''presentations-get-list''"
| "message_type PresList = ''presentations-list''"
| "message_type SendPresProposal = ''send-presentation-proposal''"
| "message_type PresExchange = ''presentation-exchange''"
| "message_type PresRequestReceived = ''presentation-request-received''"
| "message_type PresRequestApprove = ''presentation-request-approve''"
| "message_type PresSent = ''presentation-sent''"

fun class_name :: "msg_class \<Rightarrow> string" where
  "class_name CredGetList = ''CredGetList''"
| "class_name CredList = ''CredList''"
| "class_name SendCredProposal = ''SendCredProposal''"
| "class_name CredExchange = ''CredExchange''"
| "class_name CredOfferRecv = ''CredOfferRecv''"
| "class_name CredOfferAccept = ''CredOfferAccept''"
| "class_name CredRequestSent = ''CredRequestSent''"
| "class_name CredReceived = ''CredReceived''"
| "class_name PresGetList = ''PresGetList''"
| "class_name PresList = ''PresList''"
| "class_name SendPresProposal = ''SendPresProposal''"
| "class_name PresExchange = ''PresExchange''"
| "class_name PresRequestReceived = ''PresRequestReceived''"
| "class_name PresRequestApprove = ''PresRequestApprove''"
| "class_name PresSent = ''PresSent''"

definition PROTOCOL :: string where
  "PROTOCOL = ''did:sov:BzCbsNYhMrjHiqZDTUASHg;spec/admin-holder/0.1''"

definition NAME :: string where
  "NAME = ''admin-holder''"

definition VERSION :: string where
  "VERSION = ''0.1''"

definition this_module :: string where
  "this_module = ''acapy_plugin_toolbox.holder.v0_1''"

text \<open>
  Modelled from the spec: \<open>Meta.message_type\<close>, which the class decorator
  \<open>expand_message_class\<close> of \<open>util.py\<close> (not part of the sources at hand) attaches
  to a message class: the type name under the protocol namespace and version. The
  integration tests of the repository address the messages by these strings.
\<close>

definition Meta_message_type :: "msg_class \<Rightarrow> string" where
  "Meta_message_type c = PROTOCOL @ ''/'' @ message_type c"

text \<open>
  \<open>MESSAGE_TYPES\<close>: the dictionary built by the comprehension over the list of classes,
  as an association list in the order of that list.
\<close>

definition registered_classes :: "msg_class list" where
  "registered_classes =
     [CredGetList, CredList, CredOfferAccept, CredOfferRecv, CredRequestSent,
      CredReceived, SendCredProposal, CredExchange, PresGetList, PresList,
      PresRequestApprove, SendPresProposal, PresExchange]"

definition MESSAGE_TYPES :: "(string \<times> string) list" where
  "MESSAGE_TYPES =
     map (\<lambda>c. (Meta_message_type c, this_module @ ''.'' @ class_name c)) registered_classes"

text \<open>The type names that the external-interface section of the spec lists.\<close>

definition interface_message_types :: "string list" where
  "interface_message_types =
     [''credentials-get-list'', ''credentials-list'', ''send-credential-proposal'',
      ''credential-exchange'', ''credential-offer-received'', ''credential-offer-accept'',
      ''credential-request-sent'', ''credential-received'', ''presentations-get-list'',
      ''presentations-list'', ''send-presentation-proposal'', ''presentation-exchange'',
      ''presentation-request-received'', ''presentation-request-approve'',
      ''presentation-sent'']"

text \<open>
  What a message carries. A serialized record (\<open>record.serialize()\<close>) is represented by
  the record itself; a credential of the holder's store by its referent.
\<close>

datatype body =
    AdminHolderCred msg_class CredExRecord
  | AdminHolderPres msg_class PresExRecord
  | CredListBody "CredExRecord list" Page
  | PresListBody "PresExRecord list" Page
  | PresRequestReceivedBody PresExRecord "string list" "Page option"
  | ProblemReport (explain_ltxt: string) (who_retries: string)
  | CredentialProposal "string option" string string
  | PresentationProposal "string option" string
  | CredentialRequest string
  | Presentation string

fun body_class :: "body \<Rightarrow> msg_class option" where
  "body_class (AdminHolderCred c _) = Some c"
| "body_class (AdminHolderPres c _) = Some c"
| "body_class (CredListBody _ _) = Some CredList"
| "body_class (PresListBody _ _) = Some PresList"
| "body_class (PresRequestReceivedBody _ _ _) = Some PresRequestReceived"
| "body_class _ = None"

text \<open>
  An outbound message: the thread identifier of its \<open>~thread\<close> decorator, if it has
  one, and its body. A message that was just constructed has no thread decorator.
\<close>

datatype message = Message (thread: "string option") (body: body)

definition new_message :: "body \<Rightarrow> message" where
  "new_message b = Message None b"

text \<open>An inbound message: its \<open>@id\<close> and the thread identifier it carries, if any.\<close>

record AgentMessage =
  msg_id :: string
  msg_thread :: "string option"

definition thread_id :: "'a AgentMessage_scheme \<Rightarrow> string" where
  "thread_id m = (case msg_thread m of Some thid \<Rightarrow> thid | None \<Rightarrow> msg_id m)"

definition assign_thread_from :: "message \<Rightarrow> 'a AgentMessage_scheme \<Rightarrow> message" where
  "assign_thread_from m request = Message (Some (thread_id request)) (body m)"

definition thread_correlated :: "message \<Rightarrow> 'a AgentMessage_scheme \<Rightarrow> bool" where
  "thread_correlated m request = (thread m = Some (thread_id request))"

text \<open>The calls on the responder, in the order in which a handler makes them.\<close>

datatype effect =
    Send message ident
  | SendReply message
  | SendToAdmins message

fun is_dispatch :: "effect \<Rightarrow> bool" where
  "is_dispatch (Send _ _) = True"
| "is_dispatch _ = False"

type_synonym outcome = "exn option \<times> effect list \<times> world"

subsection \<open>Collaborators\<close>

text \<open>
  The protocol engines and the holder's credential store belong to the agent, not to this
  module: they are parameters of the model. An engine operation gets the record stores and
  returns its result, or the exception it raises, together with the stores as it leaves
  them. The last two fields are the two points the spec leaves open about
  \<open>ExceptionReporter\<close> (below).
\<close>

type_synonym credential = string

record requested_credentials =
  self_attested_attributes :: "(string \<times> string) list"
  requested_attributes :: "(string \<times> string) list"
  requested_predicates :: "(string \<times> string) list"

record collaborators =
  create_proposal ::
    "world \<Rightarrow> ident \<Rightarrow> string option \<Rightarrow> string \<Rightarrow> string \<Rightarrow> (exn + CredExRecord) \<times> world"
  create_request ::
    "world \<Rightarrow> CredExRecord \<Rightarrow> string \<Rightarrow> (exn + CredExRecord \<times> message) \<times> world"
  create_exchange_for_proposal ::
    "world \<Rightarrow> ident \<Rightarrow> message \<Rightarrow> bool option \<Rightarrow> (exn + PresExRecord) \<times> world"
  create_presentation ::
    "world \<Rightarrow> PresExRecord \<Rightarrow> requested_credentials \<Rightarrow> string option
       \<Rightarrow> (exn + PresExRecord \<times> message) \<times> world"
  get_credentials_for_presentation_request_by_referent ::
    "string \<Rightarrow> string list \<Rightarrow> int \<Rightarrow> int \<Rightarrow> (string \<times> string) list \<Rightarrow> exn + credential list"
  reporter_reraises :: bool
  reporter_who_retries :: string

text \<open>
  Modelled from the spec: \<open>get_connection\<close> of \<open>util.py\<close>, which is not part of the
  sources at hand. It retrieves the connection from the connection store and fails with
  \<open>InvalidConnection\<close> unless the connection exists and is ready.
\<close>

definition get_connection :: "world \<Rightarrow> ident \<Rightarrow> exn + ConnRecord" where
  "get_connection w i =
     (case ConnRecord_retrieve_by_id w i of
        Inl e \<Rightarrow> Inl (Exn InvalidConnection [])
      | Inr conn_record \<Rightarrow>
          if is_ready conn_record then Inr conn_record else Inl (Exn InvalidConnection []))"

text \<open>
  Modelled from the spec: the context manager \<open>ExceptionReporter\<close> of \<open>util.py\<close>,
  which is not part of the sources at hand. An exception of one of the given classes that
  leaves the guarded block is turned into a Problem Report that names the failure, is
  thread-correlated to the original message and is sent as a reply; any other exception
  passes through. The spec fixes neither the retry hint of that report nor whether the
  exception goes on to the caller once it is reported, so both are taken from the
  collaborators. The result is the replies sent and what the block leaves behind: the
  exception that goes on, or the block's value, \<open>None\<close> when the block was cut short
  and the names it was to bind are left as they were.
\<close>

definition ExceptionReporter ::
  "collaborators \<Rightarrow> exn_class list \<Rightarrow> 'm AgentMessage_scheme \<Rightarrow> exn + 'a
     \<Rightarrow> effect list \<times> (exn + 'a option)" where
  "ExceptionReporter env classes original_message block =
     (case block of
        Inr v \<Rightarrow> ([], Inr (Some v))
      | Inl e \<Rightarrow>
          if list_ex (isinstance e) classes
          then ([SendReply (assign_thread_from
                   (new_message (ProblemReport (exn_text e) (reporter_who_retries env)))
                   original_message)],
                if reporter_reraises env then Inl e else Inr None)
          else ([], Inl e))"

subsection \<open>Requests\<close>

text \<open>
  The inbound messages after deserialization: where the schema gives a missing field a
  default (\<open>~paginate\<close>: limit 10, offset 0), the field holds it.
\<close>

record CredGetList_request = AgentMessage +
  paginate :: Paginate
  states :: "string list option"

record SendCredProposal_request = AgentMessage +
  proposal_connection_id :: ident
  proposal_cred_def_id :: string
  proposal_comment :: "string option"
  credential_proposal :: string

record CredOfferAccept_request = AgentMessage +
  accept_credential_exchange_id :: ident

record PresGetList_request = AgentMessage +
  list_connection_id :: "string option"
  list_verified :: "string option"
  list_paginate :: Paginate

record SendPresProposal_request = AgentMessage +
  pres_proposal_connection_id :: ident
  pres_proposal_comment :: "string option"
  presentation_proposal :: string
  auto_present :: "bool option"

record PresRequestApprove_request = AgentMessage +
  approve_presentation_exchange_id :: ident
  approve_selection :: requested_credentials
  approve_comment :: "string option"

record RequestContext =
  debug_auto_respond_presentation_request :: "bool option"

text \<open>Python's \<open>a or b\<close> on values that are \<open>None\<close>, \<open>True\<close> or \<open>False\<close>.\<close>

definition py_or :: "bool option \<Rightarrow> bool option \<Rightarrow> bool option" where
  "py_or a b = (if a = Some True then a else b)"

subsection \<open>Credential handlers\<close>

definition CredGetList_handle :: "CredGetList_request \<Rightarrow> world \<Rightarrow> outcome" where
  "CredGetList_handle self w =
     (let credentials = CredExRecord_query w;
          credentials =
            (case states self of
               None \<Rightarrow> credentials
             | Some sts \<Rightarrow>
                 if sts = [] then credentials
                 else filter (\<lambda>c. cred_state c \<in> set sts) credentials)
      in case Paginate_apply (paginate self) credentials of
           Inl e \<Rightarrow> (Some e, [], w)
         | Inr (credentials, page) \<Rightarrow>
             (None, [SendReply (new_message (CredListBody credentials page))], w))"

definition SendCredProposal_handle ::
  "collaborators \<Rightarrow> SendCredProposal_request \<Rightarrow> world \<Rightarrow> outcome" where
  "SendCredProposal_handle env self w =
     (let connection_id = proposal_connection_id self;
          credential_definition_id = proposal_cred_def_id self;
          comment = proposal_comment self
      in case ConnRecord_retrieve_by_id w connection_id of
           Inl e \<Rightarrow>
             if isinstance e StorageNotFoundError
             then (None,
                   [SendReply (assign_thread_from
                      (new_message (ProblemReport ''Connection not found.'' ''none'')) self)],
                   w)
             else (Some e, [], w)
         | Inr conn_record \<Rightarrow>
             if \<not> is_ready conn_record
             then (None,
                   [SendReply (assign_thread_from
                      (new_message (ProblemReport ''Connection invalid.'' ''none'')) self)],
                   w)
             else
               (case create_proposal env w connection_id comment
                       (credential_proposal self) credential_definition_id of
                  (Inl e, w') \<Rightarrow> (Some e, [], w')
                | (Inr credential_exchange_record, w') \<Rightarrow>
                    (None,
                     [Send (new_message (CredentialProposal comment
                              (credential_proposal self) credential_definition_id))
                           connection_id,
                      SendReply (assign_thread_from
                        (new_message (AdminHolderCred CredExchange credential_exchange_record))
                        self)],
                     w')))"

text \<open>
  In \<open>CredOfferAccept.handle\<close> the names \<open>cred_ex_record\<close> and
  \<open>connection_record\<close> start as \<open>None\<close>; when the guarded block is cut short,
  reading \<open>connection_record.my_did\<close> afterwards raises \<open>AttributeError\<close>.
\<close>

definition CredOfferAccept_handle ::
  "collaborators \<Rightarrow> CredOfferAccept_request \<Rightarrow> world \<Rightarrow> outcome" where
  "CredOfferAccept_handle env self w =
     (let block =
            (case CredExRecord_retrieve_by_id w (accept_credential_exchange_id self) of
               Inl e \<Rightarrow> Inl e
             | Inr cred_ex_record \<Rightarrow>
                 (let connection_id = cred_connection_id cred_ex_record
                  in case get_connection w connection_id of
                       Inl e \<Rightarrow> Inl e
                     | Inr connection_record \<Rightarrow>
                         Inr (cred_ex_record, connection_id, connection_record)))
      in case ExceptionReporter env
                [StorageError, CredentialManagerError, BaseModelError] self block of
           (out, Inl e) \<Rightarrow> (Some e, out, w)
         | (out, Inr None) \<Rightarrow> (Some (Exn AttributeError []), out, w)
         | (out, Inr (Some (cred_ex_record, connection_id, connection_record))) \<Rightarrow>
             (case create_request env w cred_ex_record (my_did connection_record) of
                (Inl e, w') \<Rightarrow> (Some e, out, w')
              | (Inr (cred_ex_record, credential_request_message), w') \<Rightarrow>
                  (let sent = new_message (AdminHolderCred CredRequestSent cred_ex_record)
                   in (None,
                       out @ [Send credential_request_message connection_id, SendReply sent],
                       w'))))"

subsection \<open>Presentation handlers\<close>

definition PresGetList_handle :: "PresGetList_request \<Rightarrow> world \<Rightarrow> outcome" where
  "PresGetList_handle self w =
     (let paginate = list_paginate self;
          post_filter_positive =
            [\<lambda>r. pres_role r = ROLE_PROVER]
            @ (case list_connection_id self of
                 None \<Rightarrow> []
               | Some c \<Rightarrow> [\<lambda>r. pres_connection_id r = c])
            @ (case list_verified self of
                 None \<Rightarrow> []
               | Some v \<Rightarrow> [\<lambda>r. pres_verified r = Some v]);
          records = PresExRecord_query w post_filter_positive
      in case Paginate_apply paginate records of
           Inl e \<Rightarrow> (Some e, [], w)
         | Inr (records, page) \<Rightarrow>
             (None, [SendReply (new_message (PresListBody records page))], w))"

definition SendPresProposal_handle ::
  "collaborators \<Rightarrow> RequestContext \<Rightarrow> SendPresProposal_request \<Rightarrow> world \<Rightarrow> outcome" where
  "SendPresProposal_handle env ctx self w =
     (let connection_id = pres_proposal_connection_id self
      in case ExceptionReporter env [InvalidConnection] self
                (get_connection w connection_id) of
           (out, Inl e) \<Rightarrow> (Some e, out, w)
         | (out, Inr _) \<Rightarrow>
             (let comment = pres_proposal_comment self;
                  presentation_proposal =
                    new_message (PresentationProposal comment (presentation_proposal self));
                  auto_present =
                    py_or (auto_present self)
                      (debug_auto_respond_presentation_request ctx)
              in case create_exchange_for_proposal env w connection_id
                        presentation_proposal auto_present of
                   (Inl e, w') \<Rightarrow> (Some e, out, w')
                 | (Inr presentation_exchange_record, w') \<Rightarrow>
                     (None,
                      out @ [Send presentation_proposal connection_id,
                             SendReply (assign_thread_from
                               (new_message
                                  (AdminHolderPres PresExchange presentation_exchange_record))
                               self)],
                      w')))"

definition get_pres_ex_record :: "world \<Rightarrow> ident \<Rightarrow> exn + PresExRecord" where
  "get_pres_ex_record w pres_ex_id =
     (case PresExRecord_retrieve_by_id w pres_ex_id of
        Inl err \<Rightarrow>
          if isinstance err StorageNotFoundError
          then Inl (Exn InvalidPresentationExchange ''Presentation exchange ID not found'')
          else Inl err
      | Inr pres_ex_record \<Rightarrow>
          if pres_state pres_ex_record \<noteq> STATE_REQUEST_RECEIVED
          then Inl (Exn InvalidPresentationExchange
                      ''Presentation must be in request received state'')
          else Inr pres_ex_record)"

text \<open>
  In \<open>PresRequestApprove.handle\<close> the names \<open>pres_ex_record\<close>, \<open>conn_record\<close>
  and \<open>message\<close> are bound inside guarded blocks only; where a block was cut short,
  the first read of a name it was to bind raises \<open>UnboundLocalError\<close>.
\<close>

definition PresRequestApprove_handle ::
  "collaborators \<Rightarrow> PresRequestApprove_request \<Rightarrow> world \<Rightarrow> outcome" where
  "PresRequestApprove_handle env self w =
     (case ExceptionReporter env [InvalidPresentationExchange] self
             (get_pres_ex_record w (approve_presentation_exchange_id self)) of
        (out1, Inl e) \<Rightarrow> (Some e, out1, w)
      | (out1, Inr None) \<Rightarrow> (Some (Exn UnboundLocalError []), out1, w)
      | (out1, Inr (Some pres_ex_record)) \<Rightarrow>
          (case ExceptionReporter env [InvalidConnection] self
                  (get_connection w (pres_connection_id pres_ex_record)) of
             (out2, Inl e) \<Rightarrow> (Some e, out1 @ out2, w)
           | (out2, Inr conn_record) \<Rightarrow>
               (case create_presentation env w pres_ex_record
                       (approve_selection self) (approve_comment self) of
                  (result, w') \<Rightarrow>
                    (case ExceptionReporter env
                            [BaseModelError, IndyHolderError, LedgerError, StorageError,
                             WalletNotFoundError] self result of
                       (out3, Inl e) \<Rightarrow> (Some e, out1 @ out2 @ out3, w')
                     | (out3, Inr None) \<Rightarrow>
                         (Some (Exn UnboundLocalError []), out1 @ out2 @ out3, w')
                     | (out3, Inr (Some (pres_ex_record, message))) \<Rightarrow>
                         (case conn_record of
                            None \<Rightarrow>
                              (Some (Exn UnboundLocalError []), out1 @ out2 @ out3, w')
                          | Some conn_record \<Rightarrow>
                              (None,
                               out1 @ out2 @ out3 @
                               [Send message (conn_connection_id conn_record),
                                SendReply (assign_thread_from
                                  (new_message (AdminHolderPres PresSent pres_ex_record))
                                  self)],
                               w'))))))"

subsection \<open>Event bridge\<close>

text \<open>
  An event carries a payload that deserializes into an exchange record or is rejected
  with \<open>BaseModelError\<close>. \<open>send_to_admins\<close> (of \<open>util.py\<close>) hands a message to
  every admin session; the model records the call.
\<close>

datatype 'r payload = Serialized 'r | Malformed

record 'r Event =
  topic :: string
  payload :: "'r payload"

fun deserialize :: "'r payload \<Rightarrow> exn + 'r" where
  "deserialize (Serialized r) = Inr r"
| "deserialize Malformed = Inl (Exn BaseModelError [])"

definition issue_credential_event_handler ::
  "CredExRecord Event \<Rightarrow> exn option \<times> effect list" where
  "issue_credential_event_handler event =
     (case deserialize (payload event) of
        Inl e \<Rightarrow> (Some e, [])
      | Inr record \<Rightarrow>
          if cred_state record \<notin> set [STATE_OFFER_RECEIVED, STATE_CREDENTIAL_RECEIVED]
          then (None, [])
          else
            (let message = None;
                 message =
                   (if cred_state record = STATE_OFFER_RECEIVED
                    then Some (new_message (AdminHolderCred CredOfferRecv record))
                    else message);
                 message =
                   (if cred_state record = STATE_CREDENTIAL_RECEIVED
                    then Some (new_message (AdminHolderCred CredReceived record))
                    else message)
             in case message of
                  Some m \<Rightarrow> (None, [SendToAdmins m])
                | None \<Rightarrow> (Some (Exn AttributeError []), [])))"

definition DEFAULT_COUNT :: int where
  "DEFAULT_COUNT = 10"

record PresRequestReceived_message =
  notified_record :: PresExRecord
  matching_credentials :: "credential list"
  page :: "Page option"

definition PresRequestReceived_init :: "PresExRecord \<Rightarrow> PresRequestReceived_message" where
  "PresRequestReceived_init record =
     \<lparr>notified_record = record, matching_credentials = [], page = None\<rparr>"

definition retrieve_matching_credentials ::
  "collaborators \<Rightarrow> PresRequestReceived_message \<Rightarrow> exn + PresRequestReceived_message" where
  "retrieve_matching_credentials env self =
     (case get_credentials_for_presentation_request_by_referent env
             (presentation_request (notified_record self)) [] 0 DEFAULT_COUNT [] of
        Inl e \<Rightarrow> Inl e
      | Inr creds \<Rightarrow>
          Inr (self\<lparr>matching_credentials := creds,
                    page := Some (Page DEFAULT_COUNT DEFAULT_COUNT)\<rparr>))"

definition PresRequestReceived_serialize :: "PresRequestReceived_message \<Rightarrow> message" where
  "PresRequestReceived_serialize m =
     new_message
       (PresRequestReceivedBody (notified_record m) (matching_credentials m) (page m))"

definition present_proof_event_handler ::
  "collaborators \<Rightarrow> PresExRecord Event \<Rightarrow> exn option \<times> effect list" where
  "present_proof_event_handler env event =
     (case deserialize (payload event) of
        Inl e \<Rightarrow> (Some e, [])
      | Inr record \<Rightarrow>
          if pres_state record = STATE_REQUEST_RECEIVED
          then
            (let message = PresRequestReceived_init record
             in case retrieve_matching_credentials env message of
                  Inl e \<Rightarrow> (Some e, [])
                | Inr message \<Rightarrow>
                    (None, [SendToAdmins (PresRequestReceived_serialize message)]))
          else (None, []))"

subsection \<open>A small agent to run the handlers on\<close>

text \<open>
  One ready and one unready connection, a credential exchange and a presentation exchange
  whose states are chosen per run, engines that advance the record they are given, and a
  holder store with three credentials.
\<close>

definition example_cred_ex :: "string \<Rightarrow> CredExRecord" where
  "example_cred_ex st =
     \<lparr>credential_exchange_id = ''cred-ex-1'', cred_connection_id = ''conn-1'',
      cred_state = st\<rparr>"

definition example_pres_ex :: "string \<Rightarrow> PresExRecord" where
  "example_pres_ex st =
     \<lparr>presentation_exchange_id = ''pres-ex-1'', pres_connection_id = ''conn-1'',
      pres_state = st, pres_role = ''prover'', pres_verified = None,
      presentation_request = ''proof-request-1''\<rparr>"

definition example_world :: "string \<Rightarrow> string \<Rightarrow> world" where
  "example_world cred_st pres_st =
     \<lparr>cred_ex_records =
        [example_cred_ex cred_st,
         \<lparr>credential_exchange_id = ''cred-ex-2'', cred_connection_id = ''conn-1'',
          cred_state = ''acked''\<rparr>,
         \<lparr>credential_exchange_id = ''cred-ex-3'', cred_connection_id = ''conn-1'',
          cred_state = ''credential_received''\<rparr>],
      pres_ex_records = [example_pres_ex pres_st],
      conn_records =
        [\<lparr>conn_connection_id = ''conn-1'', my_did = ''did-1'', is_ready = True\<rparr>,
         \<lparr>conn_connection_id = ''conn-2'', my_did = ''did-2'', is_ready = False\<rparr>]\<rparr>"

definition example_env :: collaborators where
  "example_env =
     \<lparr>create_proposal = (\<lambda>w connection_id comment preview cred_def_id.
        (let r = \<lparr>credential_exchange_id = ''cred-ex-new'',
                   cred_connection_id = connection_id, cred_state = ''proposal_sent''\<rparr>
         in (Inr r, w\<lparr>cred_ex_records := cred_ex_records w @ [r]\<rparr>))),
      create_request = (\<lambda>w r did.
        (let r' = r\<lparr>cred_state := ''request_sent''\<rparr>
         in (Inr (r', Message None (CredentialRequest did)),
             w\<lparr>cred_ex_records :=
                  map (\<lambda>x. if credential_exchange_id x = credential_exchange_id r
                            then r' else x) (cred_ex_records w)\<rparr>))),
      create_exchange_for_proposal = (\<lambda>w connection_id proposal auto.
        (let r = \<lparr>presentation_exchange_id = ''pres-ex-new'',
                   pres_connection_id = connection_id, pres_state = ''proposal_sent'',
                   pres_role = ''prover'', pres_verified = None,
                   presentation_request = []\<rparr>
         in (Inr r, w\<lparr>pres_ex_records := pres_ex_records w @ [r]\<rparr>))),
      create_presentation = (\<lambda>w r selection comment.
        (let r' = r\<lparr>pres_state := ''presentation_sent''\<rparr>
         in (Inr (r', Message None (Presentation (presentation_request r))),
             w\<lparr>pres_ex_records :=
                  map (\<lambda>x. if presentation_exchange_id x = presentation_exchange_id r
                            then r' else x) (pres_ex_records w)\<rparr>))),
      get_credentials_for_presentation_request_by_referent =
        (\<lambda>proof_request referents start count extra_query.
           Inr (take (nat count) (drop (nat start) [''cred-a'', ''cred-b'', ''cred-c'']))),
      reporter_reraises = True,
      reporter_who_retries = ''none''\<rparr>"

definition example_approve :: PresRequestApprove_request where
  "example_approve =
     \<lparr>msg_id = ''msg-1'', msg_thread = None,
      approve_presentation_exchange_id = ''pres-ex-1'',
      approve_selection =
        \<lparr>self_attested_attributes = [], requested_attributes = [],
         requested_predicates = []\<rparr>,
      approve_comment = None\<rparr>"

definition example_accept :: CredOfferAccept_request where
  "example_accept =
     \<lparr>msg_id = ''msg-2'', msg_thread = None,
      accept_credential_exchange_id = ''cred-ex-1''\<rparr>"

definition example_proposal :: "ident \<Rightarrow> SendCredProposal_request" where
  "example_proposal connection_id =
     \<lparr>msg_id = ''msg-3'', msg_thread = Some ''thread-3'',
      proposal_connection_id = connection_id, proposal_cred_def_id = ''cred-def-1'',
      proposal_comment = None, credential_proposal = ''preview-1''\<rparr>"

definition example_get_list :: CredGetList_request where
  "example_get_list =
     \<lparr>msg_id = ''msg-4'', msg_thread = None,
      paginate = Paginate 10 0,
      states = Some [''credential_received'', ''offer_received'']\<rparr>"

definition example_cred_event :: "string \<Rightarrow> CredExRecord Event" where
  "example_cred_event st =
     \<lparr>topic = ''acapy::record::issue_credential::'' @ st,
      payload = Serialized (example_cred_ex st)\<rparr>"

definition example_pres_event :: "string \<Rightarrow> PresExRecord Event" where
  "example_pres_event st =
     \<lparr>topic = ''acapy::record::present_proof::'' @ st,
      payload = Serialized (example_pres_ex st)\<rparr>"

section \<open>The message registry\<close>

text \<open>
  Claim C9. The registered message family should hold all fifteen type names of the
  external interface under the protocol namespace and version. Evaluating the registry:
  of the fifteen names, exactly \<open>presentation-request-received\<close> and
  \<open>presentation-sent\<close> have no entry in \<open>MESSAGE_TYPES\<close>; the classes
  \<open>PresRequestReceived\<close> and \<open>PresSent\<close> are missing from the list the
  dictionary is built from, while the other outbound-only classes are in it.
\<close>

theorem MESSAGE_TYPES_unregistered:
  "filter (\<lambda>t. map_of MESSAGE_TYPES (PROTOCOL @ ''/'' @ t) = None) interface_message_types
     = [''presentation-request-received'', ''presentation-sent'']"
  by (simp add: MESSAGE_TYPES_def registered_classes_def interface_message_types_def
      Meta_message_type_def PROTOCOL_def)

section \<open>The event bridge\<close>

text \<open>
  Claim C4. For a credential-exchange event whose payload deserializes into a record: in
  state offer-received the handler sends a \<open>credential-offer-received\<close> notification
  built from the record to the admin sessions, in state credential-received a
  \<open>credential-received\<close> notification, and in every other state it sends nothing.
\<close>

theorem issue_credential_event_forwarding:
  assumes "deserialize (payload event) = Inr record"
  shows "(cred_state record = STATE_OFFER_RECEIVED \<longrightarrow>
            issue_credential_event_handler event
              = (None, [SendToAdmins (new_message (AdminHolderCred CredOfferRecv record))]))
       \<and> (cred_state record = STATE_CREDENTIAL_RECEIVED \<longrightarrow>
            issue_credential_event_handler event
              = (None, [SendToAdmins (new_message (AdminHolderCred CredReceived record))]))
       \<and> (cred_state record \<noteq> STATE_OFFER_RECEIVED
            \<and> cred_state record \<noteq> STATE_CREDENTIAL_RECEIVED \<longrightarrow>
            issue_credential_event_handler event = (None, []))"
  using assms
  by (simp add: issue_credential_event_handler_def STATE_OFFER_RECEIVED_def
      STATE_CREDENTIAL_RECEIVED_def)

theorem issue_credential_event_forwarding_witness:
  "issue_credential_event_handler (example_cred_event ''offer_received'')
     = (None, [SendToAdmins (Message None
          (AdminHolderCred CredOfferRecv (example_cred_ex ''offer_received'')))])
   \<and> issue_credential_event_handler (example_cred_event ''credential_received'')
     = (None, [SendToAdmins (Message None
          (AdminHolderCred CredReceived (example_cred_ex ''credential_received'')))])
   \<and> issue_credential_event_handler (example_cred_event ''request_sent'') = (None, [])"
  using issue_credential_event_forwarding
          [of "example_cred_event ''offer_received''" "example_cred_ex ''offer_received''"]
        issue_credential_event_forwarding
          [of "example_cred_event ''credential_received''"
              "example_cred_ex ''credential_received''"]
        issue_credential_event_forwarding
          [of "example_cred_event ''request_sent''" "example_cred_ex ''request_sent''"]
  by (simp add: example_cred_event_def example_cred_ex_def new_message_def
      STATE_OFFER_RECEIVED_def STATE_CREDENTIAL_RECEIVED_def)

lemma present_proof_event_handler_sent:
  assumes "SendToAdmins m \<in> set (snd (present_proof_event_handler env event))"
  shows "\<exists>record creds.
           deserialize (payload event) = Inr record
         \<and> pres_state record = STATE_REQUEST_RECEIVED
         \<and> get_credentials_for_presentation_request_by_referent env
              (presentation_request record) [] 0 DEFAULT_COUNT [] = Inr creds
         \<and> m = Message None (PresRequestReceivedBody record creds
                  (Some (Page DEFAULT_COUNT DEFAULT_COUNT)))"
  using assms
  by (auto simp: present_proof_event_handler_def retrieve_matching_credentials_def
      PresRequestReceived_serialize_def PresRequestReceived_init_def new_message_def
      split: sum.splits if_splits)

text \<open>
  Claim C5. The presentation event handler notifies the admin sessions only for a record
  in state request-received, and the notification it sends carries the matching
  credentials that the holder store returns for the record's proof request, queried with
  no referents from offset 0 with a count of 10. First conjunct: every notification sent
  comes from such a record and such a query. Second: for such a record, once the holder
  store has answered, exactly that notification is sent. Third: a record in any other
  state is dropped.
\<close>

theorem present_proof_event_forwarding:
  shows "(SendToAdmins m \<in> set (snd (present_proof_event_handler env event)) \<longrightarrow>
            (\<exists>record creds pg.
               deserialize (payload event) = Inr record
             \<and> pres_state record = STATE_REQUEST_RECEIVED
             \<and> get_credentials_for_presentation_request_by_referent env
                  (presentation_request record) [] 0 10 [] = Inr creds
             \<and> m = Message None (PresRequestReceivedBody record creds pg)))
       \<and> (deserialize (payload event) = Inr record
            \<and> pres_state record = STATE_REQUEST_RECEIVED
            \<and> get_credentials_for_presentation_request_by_referent env
                 (presentation_request record) [] 0 10 [] = Inr creds \<longrightarrow>
            (\<exists>pg. present_proof_event_handler env event
               = (None, [SendToAdmins
                    (Message None (PresRequestReceivedBody record creds pg))])))
       \<and> (deserialize (payload event) = Inr record
            \<and> pres_state record \<noteq> STATE_REQUEST_RECEIVED \<longrightarrow>
            present_proof_event_handler env event = (None, []))"
proof (intro conjI impI)
  assume "SendToAdmins m \<in> set (snd (present_proof_event_handler env event))"
  from present_proof_event_handler_sent [OF this]
  show "\<exists>record creds pg.
          deserialize (payload event) = Inr record
        \<and> pres_state record = STATE_REQUEST_RECEIVED
        \<and> get_credentials_for_presentation_request_by_referent env
             (presentation_request record) [] 0 10 [] = Inr creds
        \<and> m = Message None (PresRequestReceivedBody record creds pg)"
    by (auto simp: DEFAULT_COUNT_def)
next
  assume "deserialize (payload event) = Inr record
        \<and> pres_state record = STATE_REQUEST_RECEIVED
        \<and> get_credentials_for_presentation_request_by_referent env
             (presentation_request record) [] 0 10 [] = Inr creds"
  then show "\<exists>pg. present_proof_event_handler env event
               = (None, [SendToAdmins
                    (Message None (PresRequestReceivedBody record creds pg))])"
    by (simp add: present_proof_event_handler_def retrieve_matching_credentials_def
        PresRequestReceived_serialize_def PresRequestReceived_init_def new_message_def
        DEFAULT_COUNT_def)
next
  assume "deserialize (payload event) = Inr record
        \<and> pres_state record \<noteq> STATE_REQUEST_RECEIVED"
  then show "present_proof_event_handler env event = (None, [])"
    by (simp add: present_proof_event_handler_def)
qed

theorem present_proof_event_forwarding_witness:
  "(\<exists>pg. present_proof_event_handler example_env (example_pres_event ''request_received'')
      = (None, [SendToAdmins (Message None
           (PresRequestReceivedBody (example_pres_ex ''request_received'')
              [''cred-a'', ''cred-b'', ''cred-c''] pg))]))
   \<and> present_proof_event_handler example_env (example_pres_event ''presentation_sent'')
      = (None, [])"
  using present_proof_event_forwarding
          [of m example_env "example_pres_event ''request_received''"
              "example_pres_ex ''request_received''"
              "[''cred-a'', ''cred-b'', ''cred-c'']"]
        present_proof_event_forwarding
          [of m example_env "example_pres_event ''presentation_sent''"
              "example_pres_ex ''presentation_sent''" "[]"]
  by (simp add: example_pres_event_def example_pres_ex_def example_env_def
      STATE_REQUEST_RECEIVED_def)

text \<open>
  Claim C10. Every \<open>presentation-request-received\<close> notification that the event
  bridge sends has the page \<open>count = 10, offset = 10\<close>, whatever list the holder
  store returned for the query from offset 0: the page is built from
  \<open>DEFAULT_COUNT\<close> twice, not from the list or from the offset of the query.
\<close>

theorem presentation_request_received_page:
  assumes "SendToAdmins m \<in> set (snd (present_proof_event_handler env event))"
  shows "\<exists>record creds.
           get_credentials_for_presentation_request_by_referent env
             (presentation_request record) [] 0 10 [] = Inr creds
         \<and> body m = PresRequestReceivedBody record creds (Some (Page 10 10))"
  using present_proof_event_handler_sent [OF assms]
  by (auto simp: DEFAULT_COUNT_def)

theorem presentation_request_received_page_witness:
  "SendToAdmins (Message None
      (PresRequestReceivedBody (example_pres_ex ''request_received'')
         [''cred-a'', ''cred-b'', ''cred-c''] (Some (Page 10 10))))
     \<in> set (snd (present_proof_event_handler example_env
                    (example_pres_event ''request_received'')))
   \<and> (\<exists>record creds.
         get_credentials_for_presentation_request_by_referent example_env
           (presentation_request record) [] 0 10 [] = Inr creds
       \<and> length creds = 3
       \<and> PresRequestReceivedBody (example_pres_ex ''request_received'')
            [''cred-a'', ''cred-b'', ''cred-c''] (Some (Page 10 10))
           = PresRequestReceivedBody record creds (Some (Page 10 10)))"
proof -
  have sent: "SendToAdmins (Message None
      (PresRequestReceivedBody (example_pres_ex ''request_received'')
         [''cred-a'', ''cred-b'', ''cred-c''] (Some (Page 10 10))))
     \<in> set (snd (present_proof_event_handler example_env
                    (example_pres_event ''request_received'')))"
    by (simp add: present_proof_event_handler_def retrieve_matching_credentials_def
        PresRequestReceived_serialize_def PresRequestReceived_init_def new_message_def
        DEFAULT_COUNT_def example_pres_event_def example_pres_ex_def example_env_def
        STATE_REQUEST_RECEIVED_def)
  from presentation_request_received_page [OF sent] sent show ?thesis
    by auto
qed

section \<open>Pagination\<close>

text \<open>
  Claim C3. For a limit \<open>L > 0\<close> and an offset \<open>off \<ge> 0\<close> over \<open>N\<close>
  records, pagination succeeds, the slice has length \<open>max 0 (min L (N - off))\<close>, the
  page carries the offset \<open>off\<close>, and an offset at or past the end gives the empty
  slice, not an error. The result is a function of the records and the cursor alone.
\<close>

theorem pagination_window:
  assumes "0 < L" and "0 \<le> off"
  shows "\<exists>slice page.
           Paginate_apply (Paginate L off) records = Inr (slice, page)
         \<and> int (length slice) = max 0 (min L (int (length records) - off))
         \<and> page_offset page = off
         \<and> (int (length records) \<le> off \<longrightarrow> slice = [])"
  using assms
  by (auto simp: Paginate_apply_def Let_def)

theorem pagination_window_witness:
  "Paginate_apply (Paginate 2 1) [''a'', ''b'', ''c'', ''d''] = Inr ([''b'', ''c''], Page 2 1)
   \<and> (\<exists>page. Paginate_apply (Paginate 2 7) [''a'', ''b'', ''c'', ''d''] = Inr ([], page)
         \<and> page_offset page = 7)"
  using pagination_window [of 2 1 "[''a'', ''b'', ''c'', ''d'']"]
        pagination_window [of 2 7 "[''a'', ''b'', ''c'', ''d'']"]
  by (auto simp: Paginate_apply_def Let_def)

text \<open>
  Both list handlers hand the records they selected to \<open>Paginate.apply\<close> and reply
  with the slice and the page it returns; its error, if any, leaves the handler.
\<close>

lemma CredGetList_handle_paginates:
  assumes "states self = None"
  shows "CredGetList_handle self w =
           (case Paginate_apply (paginate self) (CredExRecord_query w) of
              Inl e \<Rightarrow> (Some e, [], w)
            | Inr (results, pg) \<Rightarrow>
                (None, [SendReply (Message None (CredListBody results pg))], w))"
  using assms
  by (simp add: CredGetList_handle_def Let_def new_message_def split: sum.splits)

lemma PresGetList_handle_paginates:
  "PresGetList_handle self w =
     (case Paginate_apply (list_paginate self)
             (filter (\<lambda>r. pres_role r = ROLE_PROVER
                         \<and> (\<forall>c. list_connection_id self = Some c \<longrightarrow> pres_connection_id r = c)
                         \<and> (\<forall>v. list_verified self = Some v \<longrightarrow> pres_verified r = Some v))
                (pres_ex_records w)) of
        Inl e \<Rightarrow> (Some e, [], w)
      | Inr (results, pg) \<Rightarrow>
          (None, [SendReply (Message None (PresListBody results pg))], w))"
proof -
  have q: "PresExRecord_query w
             ([\<lambda>r. pres_role r = ROLE_PROVER]
              @ (case list_connection_id self of
                   None \<Rightarrow> []
                 | Some c \<Rightarrow> [\<lambda>r. pres_connection_id r = c])
              @ (case list_verified self of
                   None \<Rightarrow> []
                 | Some v \<Rightarrow> [\<lambda>r. pres_verified r = Some v]))
           = filter (\<lambda>r. pres_role r = ROLE_PROVER
                         \<and> (\<forall>c. list_connection_id self = Some c \<longrightarrow> pres_connection_id r = c)
                         \<and> (\<forall>v. list_verified self = Some v \<longrightarrow> pres_verified r = Some v))
                (pres_ex_records w)"
    by (cases "list_connection_id self"; cases "list_verified self")
       (simp_all add: PresExRecord_query_def)
  show ?thesis
    unfolding PresGetList_handle_def Let_def q
    by (simp add: new_message_def split: sum.splits)
qed

section \<open>Credential handlers\<close>

text \<open>
  Claim C7. With a non-empty \<open>states\<close> filter (and a limit above zero), the
  \<open>credentials-list\<close> reply holds the page of exactly those queried records whose state
  is one of the requested states: the filter runs first, keeps the order of the query
  (the results are a subsequence of it), and pagination is applied to what it leaves. The
  record stores are unchanged, and when no record passes the filter the reply carries the
  empty slice.
\<close>

theorem credentials_get_list_states_filter:
  assumes "states self = Some sts" and "sts \<noteq> []" and "0 < limit (paginate self)"
  shows "\<exists>results page.
           CredGetList_handle self w
             = (None, [SendReply (Message None (CredListBody results page))], w)
         \<and> Paginate_apply (paginate self)
              (filter (\<lambda>c. cred_state c \<in> set sts) (CredExRecord_query w))
             = Inr (results, page)
         \<and> results = take (nat (limit (paginate self))) (drop (nat (offset (paginate self)))
              (filter (\<lambda>c. cred_state c \<in> set sts) (CredExRecord_query w)))
         \<and> subseq results (CredExRecord_query w)
         \<and> (filter (\<lambda>c. cred_state c \<in> set sts) (CredExRecord_query w) = []
              \<longrightarrow> results = [])"
proof -
  let ?filtered = "filter (\<lambda>c. cred_state c \<in> set sts) (CredExRecord_query w)"
  let ?results = "take (nat (limit (paginate self))) (drop (nat (offset (paginate self))) ?filtered)"
  let ?page = "Page (int (length ?results)) (offset (paginate self))"
  have ap: "Paginate_apply (paginate self) ?filtered = Inr (?results, ?page)"
    using assms(3) by (simp add: Paginate_apply_def Let_def)
  have h: "CredGetList_handle self w
             = (None, [SendReply (Message None (CredListBody ?results ?page))], w)"
    using assms(1,2) ap by (simp add: CredGetList_handle_def Let_def new_message_def)
  have "subseq ?results (drop (nat (offset (paginate self))) ?filtered)"
    by (rule prefix_imp_subseq) (rule take_is_prefix)
  also have "subseq \<dots> ?filtered"
    by (rule suffix_imp_subseq) (rule suffix_drop)
  also have "subseq \<dots> (CredExRecord_query w)"
    by (rule subseq_filter_left)
  finally have s: "subseq ?results (CredExRecord_query w)" .
  show ?thesis
    using h ap s by auto
qed

theorem credentials_get_list_states_filter_witness:
  "CredGetList_handle example_get_list (example_world ''offer_received'' ''request_received'')
     = (None,
        [SendReply (Message None
           (CredListBody
              [example_cred_ex ''offer_received'',
               \<lparr>credential_exchange_id = ''cred-ex-3'', cred_connection_id = ''conn-1'',
                cred_state = ''credential_received''\<rparr>]
              (Page 2 0)))],
        example_world ''offer_received'' ''request_received'')"
  using credentials_get_list_states_filter
          [of example_get_list "[''credential_received'', ''offer_received'']"
              "example_world ''offer_received'' ''request_received''"]
  by (auto simp: example_get_list_def example_world_def example_cred_ex_def
      CredExRecord_query_def Paginate_apply_def Let_def)

text \<open>
  Claim C6. \<open>send-credential-proposal\<close>: when the connection does not exist or is not
  ready, the handler replies with a Problem Report that is thread-correlated to the
  request and has \<open>who_retries = none\<close>, dispatches nothing and leaves the record
  stores as they were, so no proposal record is created. When the connection is ready and
  the engine's \<open>create_proposal\<close> returns a record, the handler dispatches a
  credential-proposal message on that connection and replies with a thread-correlated
  \<open>credential-exchange\<close> message built from the record; the stores are as the engine
  left them.
\<close>

theorem send_credential_proposal_outcomes:
  shows "((\<forall>c. ConnRecord_retrieve_by_id w (proposal_connection_id self) = Inr c
              \<longrightarrow> \<not> is_ready c) \<longrightarrow>
            (\<exists>explain.
               SendCredProposal_handle env self w
                 = (None,
                    [SendReply (Message (Some (thread_id self))
                       (ProblemReport explain ''none''))],
                    w)))
       \<and> (ConnRecord_retrieve_by_id w (proposal_connection_id self) = Inr conn_record
            \<and> is_ready conn_record
            \<and> create_proposal env w (proposal_connection_id self) (proposal_comment self)
                 (credential_proposal self) (proposal_cred_def_id self)
                = (Inr credential_exchange_record, w') \<longrightarrow>
            SendCredProposal_handle env self w
              = (None,
                 [Send (Message None (CredentialProposal (proposal_comment self)
                          (credential_proposal self) (proposal_cred_def_id self)))
                       (proposal_connection_id self),
                  SendReply (Message (Some (thread_id self))
                    (AdminHolderCred CredExchange credential_exchange_record))],
                 w'))"
proof (intro conjI impI)
  assume a: "\<forall>c. ConnRecord_retrieve_by_id w (proposal_connection_id self) = Inr c
               \<longrightarrow> \<not> is_ready c"
  show "\<exists>explain.
          SendCredProposal_handle env self w
            = (None,
               [SendReply (Message (Some (thread_id self)) (ProblemReport explain ''none''))],
               w)"
  proof (cases "ConnRecord_retrieve_by_id w (proposal_connection_id self)")
    case (Inl e)
    then have "e = Exn StorageNotFoundError []"
      by (simp add: ConnRecord_retrieve_by_id_def split: option.splits)
    with Inl show ?thesis
      by (simp add: SendCredProposal_handle_def assign_thread_from_def new_message_def)
  next
    case (Inr c)
    with a have "\<not> is_ready c" by simp
    with Inr show ?thesis
      by (simp add: SendCredProposal_handle_def assign_thread_from_def new_message_def)
  qed
next
  assume "ConnRecord_retrieve_by_id w (proposal_connection_id self) = Inr conn_record
        \<and> is_ready conn_record
        \<and> create_proposal env w (proposal_connection_id self) (proposal_comment self)
             (credential_proposal self) (proposal_cred_def_id self)
            = (Inr credential_exchange_record, w')"
  then show "SendCredProposal_handle env self w
              = (None,
                 [Send (Message None (CredentialProposal (proposal_comment self)
                          (credential_proposal self) (proposal_cred_def_id self)))
                       (proposal_connection_id self),
                  SendReply (Message (Some (thread_id self))
                    (AdminHolderCred CredExchange credential_exchange_record))],
                 w')"
    by (simp add: SendCredProposal_handle_def assign_thread_from_def new_message_def)
qed

theorem send_credential_proposal_outcomes_witness:
  "(\<exists>explain.
      SendCredProposal_handle example_env (example_proposal ''conn-9'')
          (example_world ''offer_received'' ''request_received'')
        = (None,
           [SendReply (Message (Some ''thread-3'') (ProblemReport explain ''none''))],
           example_world ''offer_received'' ''request_received''))
   \<and> (\<exists>explain.
      SendCredProposal_handle example_env (example_proposal ''conn-2'')
          (example_world ''offer_received'' ''request_received'')
        = (None,
           [SendReply (Message (Some ''thread-3'') (ProblemReport explain ''none''))],
           example_world ''offer_received'' ''request_received''))
   \<and> SendCredProposal_handle example_env (example_proposal ''conn-1'')
          (example_world ''offer_received'' ''request_received'')
        = (None,
           [Send (Message None (CredentialProposal None ''preview-1'' ''cred-def-1''))
                 ''conn-1'',
            SendReply (Message (Some ''thread-3'')
              (AdminHolderCred CredExchange
                 \<lparr>credential_exchange_id = ''cred-ex-new'', cred_connection_id = ''conn-1'',
                  cred_state = ''proposal_sent''\<rparr>))],
           (example_world ''offer_received'' ''request_received'')
             \<lparr>cred_ex_records :=
                cred_ex_records (example_world ''offer_received'' ''request_received'')
                @ [\<lparr>credential_exchange_id = ''cred-ex-new'',
                    cred_connection_id = ''conn-1'', cred_state = ''proposal_sent''\<rparr>]\<rparr>)"
  using send_credential_proposal_outcomes
          [of "example_world ''offer_received'' ''request_received''"
              "example_proposal ''conn-9''" example_env]
        send_credential_proposal_outcomes
          [of "example_world ''offer_received'' ''request_received''"
              "example_proposal ''conn-2''" example_env]
        send_credential_proposal_outcomes
          [of "example_world ''offer_received'' ''request_received''"
              "example_proposal ''conn-1''" example_env
              "\<lparr>conn_connection_id = ''conn-1'', my_did = ''did-1'', is_ready = True\<rparr>"
              "\<lparr>credential_exchange_id = ''cred-ex-new'', cred_connection_id = ''conn-1'',
                cred_state = ''proposal_sent''\<rparr>"
              "(example_world ''offer_received'' ''request_received'')
                 \<lparr>cred_ex_records :=
                    cred_ex_records (example_world ''offer_received'' ''request_received'')
                    @ [\<lparr>credential_exchange_id = ''cred-ex-new'',
                        cred_connection_id = ''conn-1'', cred_state = ''proposal_sent''\<rparr>]\<rparr>"]
  by (simp add: example_world_def example_proposal_def example_env_def
      ConnRecord_retrieve_by_id_def thread_id_def Let_def)

text \<open>
  Claim C2. \<open>credential-offer-accept\<close>: when the referenced credential exchange record
  exists, whatever its state, its connection is retrievable and the engine's
  \<open>create_request\<close> returns a record and a message, the handler has called
  \<open>create_request\<close> on the record and the connection's DID, dispatches the returned
  message on the record's connection and replies with \<open>credential-request-sent\<close>. No
  hypothesis is made on the state, and the witness runs the handler on a record in state
  \<open>offer_received\<close> and on one in state \<open>acked\<close>.
\<close>

theorem credential_offer_accept_any_state:
  assumes "CredExRecord_retrieve_by_id w (accept_credential_exchange_id self) = Inr cred_ex_record"
      and "get_connection w (cred_connection_id cred_ex_record) = Inr connection_record"
      and "create_request env w cred_ex_record (my_did connection_record)
             = (Inr (cred_ex_record', credential_request_message), w')"
  shows "CredOfferAccept_handle env self w
           = (None,
              [Send credential_request_message (cred_connection_id cred_ex_record),
               SendReply (Message None (AdminHolderCred CredRequestSent cred_ex_record'))],
              w')"
  using assms
  by (simp add: CredOfferAccept_handle_def ExceptionReporter_def new_message_def)

theorem credential_offer_accept_any_state_witness:
  "CredOfferAccept_handle example_env example_accept
       (example_world ''offer_received'' ''request_received'')
     = (None,
        [Send (Message None (CredentialRequest ''did-1'')) ''conn-1'',
         SendReply (Message None (AdminHolderCred CredRequestSent
           (example_cred_ex ''request_sent'')))],
        (example_world ''request_sent'' ''request_received''))
   \<and> CredOfferAccept_handle example_env example_accept
       (example_world ''acked'' ''request_received'')
     = (None,
        [Send (Message None (CredentialRequest ''did-1'')) ''conn-1'',
         SendReply (Message None (AdminHolderCred CredRequestSent
           (example_cred_ex ''request_sent'')))],
        (example_world ''request_sent'' ''request_received''))"
  using credential_offer_accept_any_state
          [of "example_world ''offer_received'' ''request_received''" example_accept
              "example_cred_ex ''offer_received''"
              "\<lparr>conn_connection_id = ''conn-1'', my_did = ''did-1'', is_ready = True\<rparr>"
              example_env "example_cred_ex ''request_sent''"
              "Message None (CredentialRequest ''did-1'')"
              "example_world ''request_sent'' ''request_received''"]
        credential_offer_accept_any_state
          [of "example_world ''acked'' ''request_received''" example_accept
              "example_cred_ex ''acked''"
              "\<lparr>conn_connection_id = ''conn-1'', my_did = ''did-1'', is_ready = True\<rparr>"
              example_env "example_cred_ex ''request_sent''"
              "Message None (CredentialRequest ''did-1'')"
              "example_world ''request_sent'' ''request_received''"]
  by (simp add: example_world_def example_accept_def example_env_def example_cred_ex_def
      CredExRecord_retrieve_by_id_def get_connection_def ConnRecord_retrieve_by_id_def
      Let_def)

subsection \<open>Thread correlation of replies\<close>

text \<open>
  The replies of \<open>SendCredProposal\<close>, \<open>SendPresProposal\<close> and
  \<open>PresRequestApprove\<close>, Problem Reports included, are assigned the thread of the
  request before they are sent.
\<close>

lemma ExceptionReporter_replies:
  assumes "ExceptionReporter env classes original_message block = (out, res)"
      and "e \<in> set out"
  shows "\<exists>m. e = SendReply m \<and> thread_correlated m original_message"
  using assms
  by (auto simp: ExceptionReporter_def thread_correlated_def assign_thread_from_def
      split: sum.splits if_splits)

lemma SendCredProposal_replies_correlated:
  assumes "SendReply m \<in> set (fst (snd (SendCredProposal_handle env self w)))"
  shows "thread_correlated m self"
  using assms
  by (auto simp: SendCredProposal_handle_def Let_def thread_correlated_def
      assign_thread_from_def split: sum.splits if_splits prod.splits)

lemma SendPresProposal_replies_correlated:
  assumes "SendReply m \<in> set (fst (snd (SendPresProposal_handle env ctx self w)))"
  shows "thread_correlated m self"
proof (cases "ExceptionReporter env [InvalidConnection] self
                (get_connection w (pres_proposal_connection_id self))")
  case (Pair out res)
  have out: "\<And>e. e \<in> set out \<Longrightarrow> \<exists>m'. e = SendReply m' \<and> thread_correlated m' self"
    using ExceptionReporter_replies [OF Pair] by blast
  show ?thesis
    using assms Pair out
    by (auto simp: SendPresProposal_handle_def Let_def thread_correlated_def
        assign_thread_from_def split: sum.splits prod.splits)
qed

lemma PresRequestApprove_replies_correlated:
  assumes "SendReply m \<in> set (fst (snd (PresRequestApprove_handle env self w)))"
  shows "thread_correlated m self"
proof -
  obtain out1 r1 where 1: "ExceptionReporter env [InvalidPresentationExchange] self
             (get_pres_ex_record w (approve_presentation_exchange_id self)) = (out1, r1)"
    by (cases "ExceptionReporter env [InvalidPresentationExchange] self
             (get_pres_ex_record w (approve_presentation_exchange_id self))") auto
  have o1: "\<And>e. e \<in> set out1 \<Longrightarrow> \<exists>m'. e = SendReply m' \<and> thread_correlated m' self"
    using ExceptionReporter_replies [OF 1] by blast
  show ?thesis
  proof (cases r1)
    case (Inl e)
    with assms 1 o1 show ?thesis
      by (auto simp: PresRequestApprove_handle_def)
  next
    case (Inr v)
    show ?thesis
    proof (cases v)
      case None
      with Inr assms 1 o1 show ?thesis
        by (auto simp: PresRequestApprove_handle_def)
    next
      case (Some rec)
      obtain out2 r2 where 2: "ExceptionReporter env [InvalidConnection] self
                  (get_connection w (pres_connection_id rec)) = (out2, r2)"
        by (cases "ExceptionReporter env [InvalidConnection] self
                  (get_connection w (pres_connection_id rec))") auto
      have o2: "\<And>e. e \<in> set out2 \<Longrightarrow> \<exists>m'. e = SendReply m' \<and> thread_correlated m' self"
        using ExceptionReporter_replies [OF 2] by blast
      obtain result w' where cp: "create_presentation env w rec
                       (approve_selection self) (approve_comment self) = (result, w')"
        by (cases "create_presentation env w rec
                       (approve_selection self) (approve_comment self)") auto
      obtain out3 r3 where 3: "ExceptionReporter env
                            [BaseModelError, IndyHolderError, LedgerError, StorageError,
                             WalletNotFoundError] self result = (out3, r3)"
        by (cases "ExceptionReporter env
                            [BaseModelError, IndyHolderError, LedgerError, StorageError,
                             WalletNotFoundError] self result") auto
      have o3: "\<And>e. e \<in> set out3 \<Longrightarrow> \<exists>m'. e = SendReply m' \<and> thread_correlated m' self"
        using ExceptionReporter_replies [OF 3] by blast
      from assms 1 Inr Some 2 cp 3 o1 o2 o3 show ?thesis
        by (auto simp: PresRequestApprove_handle_def thread_correlated_def
            assign_thread_from_def split: sum.splits option.splits prod.splits)
    qed
  qed
qed

text \<open>
  Claim C8. Every reply of a command handler should be thread-correlated to its request.
  The \<open>credential-request-sent\<close> reply of \<open>CredOfferAccept.handle\<close> is not: the
  handler never calls \<open>assign_thread_from\<close> on it, as the other handlers do on their
  replies, so the reply has no thread. Evaluating the handler on the example agent:
\<close>

theorem credential_request_sent_reply_uncorrelated:
  "CredOfferAccept_handle example_env example_accept
       (example_world ''offer_received'' ''request_received'')
     = (None,
        [Send (Message None (CredentialRequest ''did-1'')) ''conn-1'',
         SendReply (Message None (AdminHolderCred CredRequestSent
           (example_cred_ex ''request_sent'')))],
        (example_world ''request_sent'' ''request_received''))
   \<and> \<not> thread_correlated
         (Message None (AdminHolderCred CredRequestSent (example_cred_ex ''request_sent'')))
         example_accept"
  by (simp add: CredOfferAccept_handle_def ExceptionReporter_def new_message_def
      example_world_def example_accept_def example_env_def example_cred_ex_def
      CredExRecord_retrieve_by_id_def get_connection_def ConnRecord_retrieve_by_id_def
      thread_correlated_def thread_id_def Let_def)

section \<open>Presentation handlers\<close>

lemma get_pres_ex_record_invalid:
  assumes "\<forall>r. PresExRecord_retrieve_by_id w i = Inr r \<longrightarrow> pres_state r \<noteq> STATE_REQUEST_RECEIVED"
  shows "get_pres_ex_record w i =
           Inl (Exn InvalidPresentationExchange
                  (case PresExRecord_retrieve_by_id w i of
                     Inl _ \<Rightarrow> ''Presentation exchange ID not found''
                   | Inr _ \<Rightarrow> ''Presentation must be in request received state''))"
  using assms
  by (auto simp: get_pres_ex_record_def PresExRecord_retrieve_by_id_def
      split: option.splits sum.splits)

text \<open>
  Claim C1. \<open>presentation-request-approve\<close>: when no record in state
  request-received is stored under the given identifier (none at all, or one in another
  state), \<open>get_pres_ex_record\<close> fails with \<open>InvalidPresentationExchange\<close>, the
  only call on the responder is the reply with a Problem Report that carries the
  exception's text and is thread-correlated to the request, nothing is dispatched to the
  remote party, and the record stores are unchanged. The handler ends with the
  exception itself if the reporter lets it go on, with \<open>UnboundLocalError\<close> on the
  next read of \<open>pres_ex_record\<close> otherwise.
\<close>

theorem presentation_request_approve_precondition:
  assumes "\<forall>r. PresExRecord_retrieve_by_id w (approve_presentation_exchange_id self) = Inr r
                \<longrightarrow> pres_state r \<noteq> STATE_REQUEST_RECEIVED"
  shows "\<exists>explain.
           get_pres_ex_record w (approve_presentation_exchange_id self)
             = Inl (Exn InvalidPresentationExchange explain)
         \<and> PresRequestApprove_handle env self w
             = (Some (if reporter_reraises env then Exn InvalidPresentationExchange explain
                      else Exn UnboundLocalError []),
                [SendReply (Message (Some (thread_id self))
                   (ProblemReport explain (reporter_who_retries env)))],
                w)"
  using get_pres_ex_record_invalid [OF assms]
  by (simp add: PresRequestApprove_handle_def ExceptionReporter_def assign_thread_from_def
      new_message_def)

theorem presentation_request_approve_precondition_witness:
  "PresRequestApprove_handle example_env example_approve
       (example_world ''offer_received'' ''presentation_sent'')
     = (Some (Exn InvalidPresentationExchange
               ''Presentation must be in request received state''),
        [SendReply (Message (Some ''msg-1'')
           (ProblemReport ''Presentation must be in request received state'' ''none''))],
        example_world ''offer_received'' ''presentation_sent'')
   \<and> PresRequestApprove_handle example_env
       (example_approve\<lparr>approve_presentation_exchange_id := ''pres-ex-9''\<rparr>)
       (example_world ''offer_received'' ''request_received'')
     = (Some (Exn InvalidPresentationExchange ''Presentation exchange ID not found''),
        [SendReply (Message (Some ''msg-1'')
           (ProblemReport ''Presentation exchange ID not found'' ''none''))],
        example_world ''offer_received'' ''request_received'')
   \<and> PresRequestApprove_handle (example_env\<lparr>reporter_reraises := False\<rparr>) example_approve
       (example_world ''offer_received'' ''presentation_sent'')
     = (Some (Exn UnboundLocalError []),
        [SendReply (Message (Some ''msg-1'')
           (ProblemReport ''Presentation must be in request received state'' ''none''))],
        example_world ''offer_received'' ''presentation_sent'')"
  using presentation_request_approve_precondition
          [of "example_world ''offer_received'' ''presentation_sent''" example_approve
              example_env]
        presentation_request_approve_precondition
          [of "example_world ''offer_received'' ''presentation_sent''" example_approve
              "example_env\<lparr>reporter_reraises := False\<rparr>"]
        presentation_request_approve_precondition
          [of "example_world ''offer_received'' ''request_received''"
              "example_approve\<lparr>approve_presentation_exchange_id := ''pres-ex-9''\<rparr>"
              example_env]
  by (auto simp: example_world_def example_approve_def example_env_def example_pres_ex_def
      PresExRecord_retrieve_by_id_def get_pres_ex_record_def STATE_REQUEST_RECEIVED_def
      thread_id_def)

end
